theory Spec2Isabelle
  imports Complex_Main "HOL-Library.Sublist"
begin

section \<open>Python string operations used by the pipeline\<close>

text \<open>
  Strings are lists of characters. The character classes are the ASCII ones:
  \<open>str.isspace\<close> holds of the six ASCII whitespace characters and the four
  separators 0x1C..0x1F, \<open>str.isdigit\<close> of the ten decimal digits, and case
  conversion acts on the 26 letters only.
\<close>

definition py_isspace :: "char \<Rightarrow> bool" where
  "py_isspace c \<longleftrightarrow> c \<in> set [CHR 0x09, CHR 0x0A, CHR 0x0B, CHR 0x0C, CHR 0x0D,
                              CHR 0x1C, CHR 0x1D, CHR 0x1E, CHR 0x1F, CHR 0x20]"

definition py_isdigit :: "char \<Rightarrow> bool" where
  "py_isdigit c \<longleftrightarrow> c \<in> set ''0123456789''"

fun assoc_char :: "string \<Rightarrow> string \<Rightarrow> char \<Rightarrow> char" where
  "assoc_char (a # as) (b # bs) c = (if c = a then b else assoc_char as bs c)"
| "assoc_char _ _ c = c"

definition py_upper_char :: "char \<Rightarrow> char" where
  "py_upper_char = assoc_char ''abcdefghijklmnopqrstuvwxyz'' ''ABCDEFGHIJKLMNOPQRSTUVWXYZ''"

definition py_lower_char :: "char \<Rightarrow> char" where
  "py_lower_char = assoc_char ''ABCDEFGHIJKLMNOPQRSTUVWXYZ'' ''abcdefghijklmnopqrstuvwxyz''"

text \<open>\<open>s.capitalize()\<close>: first character upper-cased, the rest lower-cased.\<close>

fun capitalize :: "string \<Rightarrow> string" where
  "capitalize [] = []"
| "capitalize (c # cs) = py_upper_char c # map py_lower_char cs"

text \<open>\<open>s.lstrip(chars)\<close>, \<open>s.rstrip(chars)\<close>, \<open>s.strip(chars)\<close>, with the set of
  characters given as a predicate; \<open>s.strip()\<close> is \<open>strip_by py_isspace\<close>.\<close>

definition lstrip_by :: "(char \<Rightarrow> bool) \<Rightarrow> string \<Rightarrow> string" where
  "lstrip_by p s = dropWhile p s"

definition rstrip_by :: "(char \<Rightarrow> bool) \<Rightarrow> string \<Rightarrow> string" where
  "rstrip_by p s = rev (dropWhile p (rev s))"

definition strip_by :: "(char \<Rightarrow> bool) \<Rightarrow> string \<Rightarrow> string" where
  "strip_by p s = rstrip_by p (lstrip_by p s)"

definition strip :: "string \<Rightarrow> string" where
  "strip = strip_by py_isspace"

definition strip_chars :: "string \<Rightarrow> string \<Rightarrow> string" where
  "strip_chars chars = strip_by (\<lambda>c. c \<in> set chars)"

text \<open>\<open>sub in s\<close>.\<close>

fun contains :: "string \<Rightarrow> string \<Rightarrow> bool" where
  "contains sub [] = (sub = [])"
| "contains sub (c # cs) = (take (length sub) (c # cs) = sub \<or> contains sub cs)"

text \<open>\<open>s.split(sep)\<close> for a non-empty separator: the pieces between the
  non-overlapping occurrences of \<open>sep\<close>, found left to right. The result is never
  the empty list. The accumulator \<open>cur\<close> is the piece being read.\<close>

function split_aux :: "string \<Rightarrow> string \<Rightarrow> string \<Rightarrow> string list" where
  "split_aux sep cur [] = [cur]"
| "split_aux sep cur (c # cs) =
     (if sep \<noteq> [] \<and> take (length sep) (c # cs) = sep
      then cur # split_aux sep [] (drop (length sep) (c # cs))
      else split_aux sep (cur @ [c]) cs)"
  by pat_completeness auto
termination
  by (relation "measure (\<lambda>(sep, cur, s). length s)") auto

definition split_sep :: "string \<Rightarrow> string \<Rightarrow> string list" where
  "split_sep s sep = split_aux sep [] s"

text \<open>\<open>s.split()\<close>: the maximal runs of non-whitespace characters.\<close>

fun split_ws_aux :: "string \<Rightarrow> string \<Rightarrow> string list" where
  "split_ws_aux cur [] = (if cur = [] then [] else [cur])"
| "split_ws_aux cur (c # cs) =
     (if py_isspace c
      then (if cur = [] then split_ws_aux [] cs else cur # split_ws_aux [] cs)
      else split_ws_aux (cur @ [c]) cs)"

definition split_ws :: "string \<Rightarrow> string list" where
  "split_ws s = split_ws_aux [] s"

text \<open>\<open>s.replace(old, new)\<close> for a non-empty \<open>old\<close> (every call in the source
  passes a non-empty literal): non-overlapping occurrences, left to right.\<close>

function replace_str :: "string \<Rightarrow> string \<Rightarrow> string \<Rightarrow> string" where
  "replace_str old new [] = []"
| "replace_str old new (c # cs) =
     (if old \<noteq> [] \<and> take (length old) (c # cs) = old
      then new @ replace_str old new (drop (length old) (c # cs))
      else c # replace_str old new cs)"
  by pat_completeness auto
termination
  by (relation "measure (\<lambda>(old, new, s). length s)") auto

text \<open>\<open>sep.join(xs)\<close>.\<close>

fun join :: "string \<Rightarrow> string list \<Rightarrow> string" where
  "join sep [] = []"
| "join sep [x] = x"
| "join sep (x # y # ys) = x @ sep @ join sep (y # ys)"

text \<open>\<open>str(n)\<close> for an integer.\<close>

function str_nat :: "nat \<Rightarrow> string" where
  "str_nat n = (if n < 10 then [''0123456789'' ! n]
                else str_nat (n div 10) @ [''0123456789'' ! (n mod 10)])"
  by pat_completeness auto
termination
  by (relation "measure id") auto

declare str_nat.simps [simp del]

definition str_int :: "int \<Rightarrow> string" where
  "str_int i = (if i < 0 then CHR ''-'' # str_nat (nat (- i)) else str_nat (nat i))"

section \<open>Evidence records and deduplication\<close>

text \<open>
  An evidence or page record is a Python dict with the keys \<open>query\<close>, \<open>title\<close>,
  \<open>link\<close>, \<open>snippet\<close> and \<open>source_domain\<close>. \<open>dedupe_links\<close> reads the link with
  \<open>it.get("link")\<close>, which is \<open>None\<close> for a dict without that key, so the link is
  optional in the model.
\<close>

record evidence =
  query :: string
  title :: string
  link :: "string option"
  snippet :: string
  source_domain :: string

text \<open>The loop of \<open>dedupe_links\<close>, with its two variables \<open>seen\<close> and \<open>out\<close>.
  \<open>not link\<close> holds of \<open>None\<close> and of the empty string.\<close>

fun dedupe_loop :: "string set \<Rightarrow> evidence list \<Rightarrow> evidence list \<Rightarrow> evidence list" where
  "dedupe_loop seen out [] = out"
| "dedupe_loop seen out (it # items) =
     (case link it of
        None \<Rightarrow> dedupe_loop seen out items
      | Some l \<Rightarrow>
          if l = [] \<or> l \<in> seen then dedupe_loop seen out items
          else dedupe_loop (insert l seen) (out @ [it]) items)"

definition dedupe_links :: "evidence list \<Rightarrow> evidence list" where
  "dedupe_links items = dedupe_loop {} [] items"

text \<open>A link is missing when the key is absent or its value is empty.\<close>

definition link_missing :: "evidence \<Rightarrow> bool" where
  "link_missing it \<longleftrightarrow> link it = None \<or> link it = Some []"

section \<open>Exceptions\<close>

text \<open>
  A raised exception is a value: its class name and its message (\<open>str(e)\<close>).
  \<open>RetryError\<close> is the exception of the retry library, raised when the last
  allowed attempt has failed; it carries that attempt's exception. Every exception
  of the model is an instance of \<open>Exception\<close>, the class the handlers of the source
  catch. A computation that may raise returns \<open>exn + 'a\<close>.
\<close>

datatype exn = Exn string string | RetryError exn

fun type_name :: "exn \<Rightarrow> string" where
  "type_name (Exn cls msg) = cls"
| "type_name (RetryError cause) = ''RetryError''"

text \<open>\<open>str(e)\<close>. For a \<open>RetryError\<close> the library prints the attempt object, whose
  text ends with the class of the exception it holds (the object's address, which
  the library prints too, is left out).\<close>

fun str_exn :: "exn \<Rightarrow> string" where
  "str_exn (Exn cls msg) = msg"
| "str_exn (RetryError cause) =
     ''RetryError[<Future state=finished raised '' @ type_name cause @ ''>]''"

definition try_except :: "exn + 'a \<Rightarrow> (exn \<Rightarrow> exn + 'a) \<Rightarrow> exn + 'a" where
  "try_except body handler = (case body of Inl e \<Rightarrow> handler e | Inr v \<Rightarrow> Inr v)"

definition py_nth :: "'a list \<Rightarrow> nat \<Rightarrow> exn + 'a" where
  "py_nth xs i = (if i < length xs then Inr (xs ! i)
                  else Inl (Exn ''IndexError'' ''list index out of range''))"

text \<open>\<open>xs[-1]\<close>.\<close>

definition py_last :: "'a list \<Rightarrow> exn + 'a" where
  "py_last xs = (if xs = [] then Inl (Exn ''IndexError'' ''list index out of range'')
                 else Inr (last xs))"


section \<open>URL processing\<close>

text \<open>
  \<open>extract_name_from_linkedin\<close>: the body of the \<open>try\<close> block, where the two
  subscripts may raise \<open>IndexError\<close>, and the function with its handler.
\<close>

definition digit_free :: "string \<Rightarrow> bool" where
  "digit_free t \<longleftrightarrow> \<not> (\<exists>c\<in>set t. py_isdigit c)"

definition clean_slug :: "string \<Rightarrow> string" where
  "clean_slug slug0 =
     (let slug = replace_str ''_'' '' '' (replace_str ''-'' '' '' (replace_str ''%20'' '' '' slug0));
          slug = join '' '' (filter digit_free (split_ws slug))
      in strip (join '' '' (map capitalize (filter (\<lambda>w. w \<noteq> []) (split_ws slug)))))"

definition extract_name_body :: "string \<Rightarrow> exn + string" where
  "extract_name_body url =
     (case py_nth (split_sep url ''linkedin.com/in/'') 1 of
        Inl e \<Rightarrow> Inl e
      | Inr s \<Rightarrow>
          (case py_nth (split_sep (strip_chars ''/'' s) ''?'') 0 of
             Inl e \<Rightarrow> Inl e
           | Inr slug \<Rightarrow> Inr (clean_slug slug)))"

definition extract_name_from_linkedin :: "string \<Rightarrow> exn + string" where
  "extract_name_from_linkedin url = try_except (extract_name_body url) (\<lambda>e. Inr [])"

text \<open>
  \<open>domain_from_url\<close>. The URL parser is the standard library's; it enters as the
  function \<open>urlparse_netloc\<close>, which gives the network location of a URL or the
  exception the parser raises (\<open>ValueError\<close> on a malformed bracketed host).
\<close>

definition domain_from_url :: "(string \<Rightarrow> exn + string) \<Rightarrow> string \<Rightarrow> exn + string" where
  "domain_from_url urlparse_netloc url =
     try_except
       (case urlparse_netloc url of
          Inl e \<Rightarrow> Inl e
        | Inr netloc \<Rightarrow> Inr (replace_str ''www.'' [] netloc))
       (\<lambda>e. Inr [])"

text \<open>
  The parser's rule for the network location, for the URLs of the examples
  (no control characters, no brackets): after an optional scheme
  \<open>letter (letter | digit | + | - | .)* :\<close>, a URL that goes on with \<open>//\<close> has as its
  network location everything up to the first of \<open>/\<close>, \<open>?\<close> and \<open>#\<close>; any other
  URL has the empty one. A host with one bracket and not the other is refused.
\<close>

definition scheme_char :: "char \<Rightarrow> bool" where
  "scheme_char c \<longleftrightarrow>
     c \<in> set ''abcdefghijklmnopqrstuvwxyzABCDEFGHIJKLMNOPQRSTUVWXYZ0123456789+-.''"

definition after_scheme :: "string \<Rightarrow> string" where
  "after_scheme url =
     (let pre = takeWhile (\<lambda>c. c \<noteq> CHR '':'') url
      in if length pre < length url \<and> pre \<noteq> [] \<and>
            hd pre \<in> set ''abcdefghijklmnopqrstuvwxyzABCDEFGHIJKLMNOPQRSTUVWXYZ'' \<and>
            list_all scheme_char pre
         then drop (Suc (length pre)) url else url)"

definition simple_netloc :: "string \<Rightarrow> exn + string" where
  "simple_netloc url =
     (let rest = after_scheme url
      in if take 2 rest = ''//''
         then (let netloc = takeWhile (\<lambda>c. c \<notin> set ''/?#'') (drop 2 rest)
               in if (CHR ''['' \<in> set netloc) \<noteq> (CHR '']'' \<in> set netloc)
                  then Inl (Exn ''ValueError'' ''Invalid IPv6 URL'')
                  else Inr netloc)
         else Inr [])"

section \<open>The outside world\<close>

text \<open>
  The pipeline talks to three services: the web pages it fetches, the search API
  and the judgment service. A run is sequential, so the world is a trace of the
  calls made so far, and what a service answers to a call may depend on the
  position of the call in the run (its index in the trace) and on its arguments.
  The answers are the fields of the environment; the theorems hold for every
  environment.
\<close>

datatype event =
    HttpGet string
  | SerpGet string int
  | ModelsList
  | ChatCreate bool string
  | Sleep nat

text \<open>A network call is any event but the pause between two attempts.\<close>

fun network_call :: "event \<Rightarrow> bool" where
  "network_call (Sleep n) = False"
| "network_call _ = True"

type_synonym trace = "event list"

text \<open>An organic result of the search API: each key may be absent.\<close>

record raw_result =
  raw_title :: "string option"
  raw_link :: "string option"
  raw_snippet :: "string option"

text \<open>
  The values of a decoded JSON document. An object is the Python dict: its keys
  are distinct, in insertion order. Numbers are integers or reals.
\<close>

datatype json =
    JNull
  | JBool bool
  | JInt int
  | JFloat real
  | JStr string
  | JArr "json list"
  | JObj "(string \<times> json) list"

datatype format_outcome = Formatted string | FormatKeyError string | FormatError string

text \<open>
  \<^item> \<open>serpapi_api_key\<close>, \<open>openai_api_key\<close>: the environment variables, \<open>None\<close> when unset;
  \<^item> \<open>http_get\<close>: \<open>requests.get\<close> on a page: the status code and text of the
    response, or the message of the \<open>requests.RequestException\<close> it raises (the
    class of every exception of that library);
  \<^item> \<open>serp_get\<close>: the search request with \<open>raise_for_status\<close> and the decoding of the
    body: the organic results, or any exception;
  \<^item> \<open>soup\<close>: the HTML parser: the content of the Open-Graph description (empty
    when there is none) and the text of the document without scripts and styles;
  \<^item> \<open>urlparse_netloc\<close>: the URL parser (see \<open>domain_from_url\<close>);
  \<^item> \<open>format_prompt\<close>: the prompt template filled with the profile URL, the name and
    the evidence as JSON text;
  \<^item> \<open>openai_installed\<close>: whether the client library can be imported;
  \<^item> \<open>models_list\<close>: the call that checks the key, with the exception it raises if any;
  \<^item> \<open>chat_create\<close>: the completion call, in JSON mode or not: the contents of the
    choices of the response (a content may be \<open>None\<close>), or any exception;
  \<^item> \<open>json_loads\<close>: the JSON decoder: the value, or the message of the
    \<open>JSONDecodeError\<close>;
  \<^item> \<open>float_of_str\<close>: \<open>float(s)\<close> on a string, \<open>None\<close> when it raises \<open>ValueError\<close>.
\<close>

record env =
  serpapi_api_key :: "string option"
  openai_api_key :: "string option"
  http_get :: "nat \<Rightarrow> string \<Rightarrow> string + int \<times> string"
  serp_get :: "nat \<Rightarrow> string \<Rightarrow> int \<Rightarrow> exn + raw_result list"
  soup :: "string \<Rightarrow> string \<times> string"
  urlparse_netloc :: "string \<Rightarrow> exn + string"
  format_prompt :: "string \<Rightarrow> string \<Rightarrow> evidence list \<Rightarrow> evidence list \<Rightarrow> format_outcome"
  openai_installed :: bool
  models_list :: "nat \<Rightarrow> exn option"
  chat_create :: "nat \<Rightarrow> bool \<Rightarrow> string \<Rightarrow> exn + string option list"
  json_loads :: "string \<Rightarrow> string + json"
  float_of_str :: "string \<Rightarrow> real option"

text \<open>\<open>os.environ.get(name, "")\<close>.\<close>

definition environ_get :: "string option \<Rightarrow> string" where
  "environ_get v = (case v of None \<Rightarrow> [] | Some s \<Rightarrow> s)"

section \<open>Web fetching\<close>

text \<open>\<open>fetch_url\<close>: one GET; the body is \<open>None\<close> unless the status is 200 and the
  text is non-empty.\<close>

definition fetch_url :: "env \<Rightarrow> string \<Rightarrow> trace \<Rightarrow> (string option \<times> int \<times> string) \<times> trace" where
  "fetch_url E url t =
     (case http_get E (length t) url of
        Inr (status_code, text) \<Rightarrow>
          if status_code = 200 \<and> text \<noteq> []
          then ((Some text, 200, ''ok''), t @ [HttpGet url])
          else ((None, status_code, ''http_status_'' @ str_int status_code), t @ [HttpGet url])
      | Inl e \<Rightarrow> ((None, 0, ''request_error:'' @ e), t @ [HttpGet url]))"



section \<open>Search client\<close>

definition serp_key_required :: "env \<Rightarrow> exn + string" where
  "serp_key_required E =
     (let key = strip (environ_get (serpapi_api_key E))
      in if key = [] then Inl (Exn ''RuntimeError'' ''Missing SERPAPI_API_KEY'') else Inr key)"

text \<open>
  The retry decorator \<open>@retry(stop=stop_after_attempt(3),
  wait=wait_exponential(min=1, max=6))\<close>: the decorated body is run; when it raises
  (any exception: the decorator names no class), the third failure raises
  \<open>RetryError\<close> holding that exception, and an earlier one sleeps and runs the body
  again. \<open>n\<close> is the number of the attempt, from 1.
\<close>

definition wait_exponential :: "nat \<Rightarrow> nat" where
  "wait_exponential n = max 1 (min (2 ^ (n - 1)) 6)"

function retry :: "nat \<Rightarrow> (trace \<Rightarrow> (exn + 'a) \<times> trace) \<Rightarrow> trace \<Rightarrow> (exn + 'a) \<times> trace" where
  "retry n body t =
     (case body t of
        (Inr v, t') \<Rightarrow> (Inr v, t')
      | (Inl e, t') \<Rightarrow>
          if 3 \<le> n then (Inl (RetryError e), t')
          else retry (Suc n) body (t' @ [Sleep (wait_exponential n)]))"
  by pat_completeness auto
termination
  by (relation "measure (\<lambda>(n, body, t). 3 - n)") auto

declare retry.simps [simp del]

fun map_exn :: "('a \<Rightarrow> exn + 'b) \<Rightarrow> 'a list \<Rightarrow> exn + 'b list" where
  "map_exn f [] = Inr []"
| "map_exn f (x # xs) =
     (case f x of
        Inl e \<Rightarrow> Inl e
      | Inr y \<Rightarrow> (case map_exn f xs of Inl e \<Rightarrow> Inl e | Inr ys \<Rightarrow> Inr (y # ys)))"

text \<open>\<open>item.get(key, "")\<close>.\<close>

definition get_or_empty :: "string option \<Rightarrow> string" where
  "get_or_empty v = (case v of None \<Rightarrow> [] | Some s \<Rightarrow> s)"

definition result_of_item :: "env \<Rightarrow> string \<Rightarrow> raw_result \<Rightarrow> exn + evidence" where
  "result_of_item E q item =
     (case domain_from_url (urlparse_netloc E) (get_or_empty (raw_link item)) of
        Inl e \<Rightarrow> Inl e
      | Inr d \<Rightarrow>
          Inr \<lparr>query = q, title = get_or_empty (raw_title item),
               link = Some (get_or_empty (raw_link item)),
               snippet = get_or_empty (raw_snippet item), source_domain = d\<rparr>)"

text \<open>The body of \<open>serp_search\<close>: the key is read while the parameters are built,
  before the request is made.\<close>

definition serp_search_body :: "env \<Rightarrow> string \<Rightarrow> int \<Rightarrow> trace \<Rightarrow> (exn + evidence list) \<times> trace" where
  "serp_search_body E q num t =
     (case serp_key_required E of
        Inl e \<Rightarrow> (Inl e, t)
      | Inr key \<Rightarrow>
          (case serp_get E (length t) q num of
             Inl e \<Rightarrow> (Inl e, t @ [SerpGet q num])
           | Inr items \<Rightarrow> (map_exn (result_of_item E q) items, t @ [SerpGet q num])))"

definition serp_search :: "env \<Rightarrow> string \<Rightarrow> int \<Rightarrow> trace \<Rightarrow> (exn + evidence list) \<times> trace" where
  "serp_search E q num t = retry 1 (serp_search_body E q num) t"

section \<open>Evidence collection\<close>
















section \<open>Judgment\<close>
















section \<open>The orchestrator\<close>







text \<open>The handler: the message is that of the exception, or for an exhausted
  retry the class and message of the last attempt's exception.\<close>

fun root_msg :: "exn \<Rightarrow> string" where
  "root_msg (RetryError cause) = type_name cause @ '': '' @ str_exn cause"
| "root_msg e = str_exn e"



section \<open>Example inputs\<close>

definition ev :: "string \<Rightarrow> string option \<Rightarrow> evidence" where
  "ev ttl l = \<lparr>query = ''q'', title = ttl, link = l, snippet = [], source_domain = []\<rparr>"

text \<open>An environment without credentials, in which every page is empty, every
  search finds nothing and the judgment service answers with no choice.\<close>

definition env0 :: env where
  "env0 = \<lparr>serpapi_api_key = None, openai_api_key = None,
           http_get = (\<lambda>i url. Inr (200, [])),
           serp_get = (\<lambda>i q n. Inr []),
           soup = (\<lambda>html. ([], html)),
           urlparse_netloc = simple_netloc,
           format_prompt = (\<lambda>url name pgs evs. Formatted url),
           openai_installed = True,
           models_list = (\<lambda>i. None),
           chat_create = (\<lambda>i json_mode msg. Inr []),
           json_loads = (\<lambda>s. Inl ''Expecting value''),
           float_of_str = (\<lambda>s. None)\<rparr>"





text \<open>An environment with a search key in which every search request fails.\<close>

definition env_search_down :: env where
  "env_search_down = env0\<lparr>serpapi_api_key := Some ''key'',
       serp_get := (\<lambda>i q n. Inl (Exn ''HTTPError'' ''500 Server Error''))\<rparr>"









section \<open>Deduplication\<close>

lemma dedupe_loop_out: "dedupe_loop seen out items = out @ dedupe_loop seen [] items"
proof (induction items arbitrary: seen out)
  case Nil show ?case by simp
next
  case (Cons it items)
  show ?case
    using Cons.IH[of seen out] Cons.IH[of "insert (the (link it)) seen" "out @ [it]"]
          Cons.IH[of "insert (the (link it)) seen" "[it]"]
    by (auto split: option.splits)
qed

lemma dedupe_loop_Cons:
  "dedupe_loop seen [] (it # items) =
     (if link_missing it \<or> the (link it) \<in> seen then dedupe_loop seen [] items
      else it # dedupe_loop (insert (the (link it)) seen) [] items)"
  using dedupe_loop_out[of "insert (the (link it)) seen" "[it]" items]
  by (auto simp: link_missing_def split: option.splits)

lemma dedupe_loop_kept:
  "r \<in> set (dedupe_loop seen [] items) \<Longrightarrow>
     r \<in> set items \<and> \<not> link_missing r \<and> the (link r) \<notin> seen"
proof (induction items arbitrary: seen)
  case Nil then show ?case by simp
next
  case (Cons it items)
  then show ?case
    by (fastforce simp: dedupe_loop_Cons simp del: dedupe_loop.simps split: if_splits)
qed

lemma dedupe_loop_distinct: "distinct (map link (dedupe_loop seen [] items))"
proof (induction items arbitrary: seen)
  case Nil show ?case by simp
next
  case (Cons it items)
  have "link it \<notin> link ` set (dedupe_loop (insert (the (link it)) seen) [] items)"
  proof
    assume "link it \<in> link ` set (dedupe_loop (insert (the (link it)) seen) [] items)"
    then obtain r where r: "r \<in> set (dedupe_loop (insert (the (link it)) seen) [] items)"
      and eq: "link it = link r" by auto
    from dedupe_loop_kept[OF r] eq show False by simp
  qed
  with Cons.IH show ?case
    by (simp add: dedupe_loop_Cons del: dedupe_loop.simps)
qed

lemma dedupe_loop_subseq: "subseq (dedupe_loop seen [] items) items"
  by (induction items arbitrary: seen)
     (auto simp: dedupe_loop_Cons simp del: dedupe_loop.simps(2))

lemma dedupe_loop_covers:
  "it \<in> set items \<Longrightarrow> \<not> link_missing it \<Longrightarrow> the (link it) \<notin> seen \<Longrightarrow>
     link it \<in> link ` set (dedupe_loop seen [] items)"
proof (induction items arbitrary: seen)
  case Nil then show ?case by simp
next
  case (Cons a items)
  show ?case
  proof (cases "link_missing a \<or> the (link a) \<in> seen")
    case True
    with Cons.prems have "it \<in> set items" by auto
    with Cons.IH[of seen] Cons.prems True show ?thesis
      by (simp add: dedupe_loop_Cons del: dedupe_loop.simps)
  next
    case False
    show ?thesis
    proof (cases "link it = link a")
      case True
      with False show ?thesis by (simp add: dedupe_loop_Cons del: dedupe_loop.simps)
    next
      case neq: False
      with Cons.prems False
      have "it \<in> set items" "the (link it) \<notin> insert (the (link a)) seen"
        by (auto simp: link_missing_def)
      with Cons.IH[of "insert (the (link a)) seen"] Cons.prems False show ?thesis
        by (simp add: dedupe_loop_Cons del: dedupe_loop.simps)
    qed
  qed
qed

lemma dedupe_loop_first:
  "r \<in> set (dedupe_loop seen [] items) \<Longrightarrow> find (\<lambda>x. link x = link r) items = Some r"
proof (induction items arbitrary: seen)
  case Nil then show ?case by simp
next
  case (Cons a items)
  show ?case
  proof (cases "link_missing a \<or> the (link a) \<in> seen")
    case True
    with Cons.prems have r: "r \<in> set (dedupe_loop seen [] items)"
      by (simp add: dedupe_loop_Cons del: dedupe_loop.simps)
    from dedupe_loop_kept[OF r] True have "link a \<noteq> link r"
      by (auto simp: link_missing_def)
    with Cons.IH[OF r] show ?thesis by simp
  next
    case False
    with Cons.prems
    have "r = a \<or> r \<in> set (dedupe_loop (insert (the (link a)) seen) [] items)"
      by (simp add: dedupe_loop_Cons del: dedupe_loop.simps)
    then show ?thesis
    proof
      assume "r = a" then show ?thesis by simp
    next
      assume r: "r \<in> set (dedupe_loop (insert (the (link a)) seen) [] items)"
      from dedupe_loop_kept[OF r] have "link a \<noteq> link r" by auto
      with Cons.IH[OF r] show ?thesis by simp
    qed
  qed
qed

lemma dedupe_loop_fixed:
  "distinct (map link xs) \<Longrightarrow> \<forall>r\<in>set xs. \<not> link_missing r \<and> the (link r) \<notin> seen \<Longrightarrow>
     dedupe_loop seen [] xs = xs"
proof (induction xs arbitrary: seen)
  case Nil show ?case by simp
next
  case (Cons a xs)
  have "\<forall>r\<in>set xs. \<not> link_missing r \<and> the (link r) \<notin> insert (the (link a)) seen"
    using Cons.prems by (auto simp: link_missing_def)
  with Cons.IH[of "insert (the (link a)) seen"] Cons.prems show ?case
    by (simp add: dedupe_loop_Cons del: dedupe_loop.simps)
qed


text \<open>
  C9. For every list of records, \<open>dedupe_links\<close> keeps no record whose link is
  missing (absent or empty); the links of the kept records are pairwise distinct
  and are exactly the links present in the input; the kept records are a
  subsequence of the input, so the order is preserved; each kept record is the
  first record of the input with its link; and \<open>dedupe_links\<close> is idempotent.
\<close>

theorem dedupe_links_first_occurrence_idempotent:
  "(\<forall>r\<in>set (dedupe_links items). \<not> link_missing r) \<and>
   distinct (map link (dedupe_links items)) \<and>
   link ` set (dedupe_links items) = link ` {it \<in> set items. \<not> link_missing it} \<and>
   subseq (dedupe_links items) items \<and>
   (\<forall>r\<in>set (dedupe_links items). find (\<lambda>x. link x = link r) items = Some r) \<and>
   dedupe_links (dedupe_links items) = dedupe_links items"
proof -
  have kept: "\<And>r. r \<in> set (dedupe_links items) \<Longrightarrow> r \<in> set items \<and> \<not> link_missing r"
    unfolding dedupe_links_def using dedupe_loop_kept by blast
  have cov: "\<And>it. it \<in> set items \<Longrightarrow> \<not> link_missing it \<Longrightarrow>
      link it \<in> link ` set (dedupe_links items)"
    unfolding dedupe_links_def using dedupe_loop_covers[of _ items "{}"] by simp
  have links: "link ` set (dedupe_links items) = link ` {it \<in> set items. \<not> link_missing it}"
    using kept cov by blast
  have idem: "dedupe_links (dedupe_links items) = dedupe_links items"
    unfolding dedupe_links_def
    by (rule dedupe_loop_fixed) (use dedupe_loop_distinct dedupe_loop_kept in auto)
  show ?thesis
    using kept links idem dedupe_loop_distinct[of "{}" items] dedupe_loop_subseq[of "{}" items]
      dedupe_loop_first[of _ "{}" items]
    unfolding dedupe_links_def by blast
qed

theorem dedupe_links_witness:
  "dedupe_links [ev ''a'' (Some ''x''), ev ''b'' None, ev ''c'' (Some []),
                 ev ''d'' (Some ''x''), ev ''e'' (Some ''y'')]
     = [ev ''a'' (Some ''x''), ev ''e'' (Some ''y'')] \<and>
   \<not> link_missing (ev ''a'' (Some ''x'')) \<and> \<not> link_missing (ev ''e'' (Some ''y'')) \<and>
   dedupe_links [ev ''a'' (Some ''x''), ev ''e'' (Some ''y'')]
     = [ev ''a'' (Some ''x''), ev ''e'' (Some ''y'')]"
  using dedupe_links_first_occurrence_idempotent
    [of "[ev ''a'' (Some ''x''), ev ''b'' None, ev ''c'' (Some []),
          ev ''d'' (Some ''x''), ev ''e'' (Some ''y'')]"]
  by (simp add: dedupe_links_def ev_def link_missing_def)

section \<open>Fetching\<close>

lemma str_int_200: "str_int 200 = ''200''"
  by (simp add: str_int_def str_nat.simps)

text \<open>
  C10. When the response has status 200 and an empty body, \<open>fetch_url\<close> returns
  \<open>(None, 200, "http_status_200")\<close>; and the body it returns is present exactly
  when the response has status 200 and a non-empty body.
\<close>

theorem fetch_url_empty_body:
  "(http_get E (length t) url = Inr (200, []) \<longrightarrow>
      fetch_url E url t = ((None, 200, ''http_status_200''), t @ [HttpGet url])) \<and>
   (fst (fst (fetch_url E url t)) \<noteq> None \<longleftrightarrow>
      (\<exists>text. http_get E (length t) url = Inr (200, text) \<and> text \<noteq> []))"
  by (auto simp: fetch_url_def str_int_200 split: sum.splits)

theorem fetch_url_empty_body_witness:
  "http_get env0 (length []) ''https://a.example/'' = Inr (200, []) \<and>
   fetch_url env0 ''https://a.example/'' [] =
     ((None, 200, ''http_status_200''), [HttpGet ''https://a.example/''])"
  using fetch_url_empty_body[of env0 "[]" "''https://a.example/''"]
  by (simp add: env0_def)

section \<open>Names and domains\<close>

lemmas str_eval = extract_name_from_linkedin_def extract_name_body_def try_except_def py_nth_def
  py_last_def split_sep_def clean_slug_def strip_chars_def strip_by_def lstrip_by_def rstrip_by_def
  split_ws_def digit_free_def py_isdigit_def py_isspace_def strip_def py_upper_char_def
  py_lower_char_def

lemma split_aux_no_sep: "\<not> contains sep s \<Longrightarrow> split_aux sep cur s = [cur @ s]"
  by (induction s arbitrary: cur) auto


lemma extract_name_total: "\<exists>s. extract_name_from_linkedin url = Inr s"
  by (auto simp: extract_name_from_linkedin_def try_except_def split: sum.splits)

text \<open>
  C4, as stated: on \<open>https://site.example/in/jane-doe-123/\<close> the result would be
  \<open>Jane Doe\<close>. The function splits the URL at the literal marker
  \<open>linkedin.com/in/\<close>, which this URL does not contain, so the subscript raises, the
  handler runs and the result is the empty string.
\<close>

theorem extract_name_site_example_counterexample:
  "extract_name_from_linkedin ''https://site.example/in/jane-doe-123/'' = Inr [] \<and>
   extract_name_from_linkedin ''https://site.example/in/jane-doe-123/'' \<noteq> Inr ''Jane Doe''"
  by (simp add: str_eval)

text \<open>
  C4, amended. \<open>extract_name_from_linkedin\<close> raises for no string; on
  \<open>https://linkedin.com/in/jane-doe-123/\<close> it returns \<open>Jane Doe\<close>; and on every URL
  that does not contain the marker \<open>linkedin.com/in/\<close> it returns the empty string.
\<close>

theorem extract_name_total_and_marker:
  "(\<exists>s. extract_name_from_linkedin url = Inr s) \<and>
   extract_name_from_linkedin ''https://linkedin.com/in/jane-doe-123/'' = Inr ''Jane Doe'' \<and>
   (\<not> contains ''linkedin.com/in/'' url \<longrightarrow> extract_name_from_linkedin url = Inr [])"
proof (intro conjI impI)
  show "\<exists>s. extract_name_from_linkedin url = Inr s" by (rule extract_name_total)
  show "extract_name_from_linkedin ''https://linkedin.com/in/jane-doe-123/'' = Inr ''Jane Doe''"
    by (simp add: str_eval)
  assume "\<not> contains ''linkedin.com/in/'' url"
  then have "split_sep url ''linkedin.com/in/'' = [url]"
    by (simp add: split_sep_def split_aux_no_sep)
  then show "extract_name_from_linkedin url = Inr []"
    by (simp add: extract_name_from_linkedin_def extract_name_body_def try_except_def py_nth_def)
qed

theorem extract_name_total_and_marker_witness:
  "\<not> contains ''linkedin.com/in/'' ''https://site.example/in/jane-doe-123/'' \<and>
   extract_name_from_linkedin ''https://site.example/in/jane-doe-123/'' = Inr []"
  using extract_name_total_and_marker[of "''https://site.example/in/jane-doe-123/''"]
  by simp


lemma domain_from_url_parse_failure: "up url = Inl e \<Longrightarrow> domain_from_url up url = Inr []"
  by (simp add: domain_from_url_def try_except_def)

text \<open>
  C3. The function removes every occurrence of \<open>www.\<close> from the network location,
  not only a leading label: the host \<open>awww.example.com\<close> becomes \<open>aexample.com\<close>,
  where the claim keeps it whole.
\<close>

theorem domain_from_url_inner_www:
  "domain_from_url simple_netloc ''https://awww.example.com/about'' = Inr ''aexample.com''"
  by (simp add: domain_from_url_def try_except_def simple_netloc_def after_scheme_def
        scheme_char_def)










section \<open>Retry\<close>

lemma retry_3: "retry 3 body t =
  (case body t of (Inr v, t') \<Rightarrow> (Inr v, t') | (Inl e, t') \<Rightarrow> (Inl (RetryError e), t'))"
  by (subst retry.simps) (simp split: prod.splits sum.splits)

lemma retry_2: "retry 2 body t =
  (case body t of (Inr v, t') \<Rightarrow> (Inr v, t')
   | (Inl e, t') \<Rightarrow> retry 3 body (t' @ [Sleep 2]))"
  by (subst retry.simps) (simp add: wait_exponential_def eval_nat_numeral split: prod.splits sum.splits)

lemma retry_1: "retry (Suc 0) body t =
  (case body t of (Inr v, t') \<Rightarrow> (Inr v, t')
   | (Inl e, t') \<Rightarrow> retry 2 body (t' @ [Sleep (Suc 0)]))"
  by (subst retry.simps) (simp add: wait_exponential_def eval_nat_numeral split: prod.splits sum.splits)


section \<open>Search without a key\<close>

text \<open>
  C2, amended. When the search key is missing (unset, empty or blank), \<open>serp_search\<close>
  makes no network call: each of the three attempts of the retry policy raises the
  configuration error before the request, the two backoff pauses are taken in
  between, and the caller receives the \<open>RetryError\<close> of the exhausted retry, which
  holds the configuration error.
\<close>

theorem serp_search_missing_key:
  "strip (environ_get (serpapi_api_key E)) = [] \<Longrightarrow>
     serp_search E q num t =
       (Inl (RetryError (Exn ''RuntimeError'' ''Missing SERPAPI_API_KEY'')), t @ [Sleep 1, Sleep 2]) \<and>
     filter network_call (snd (serp_search E q num t)) = filter network_call t"
  by (simp add: serp_search_def retry_1 retry_2 retry_3 serp_search_body_def serp_key_required_def)

theorem serp_search_missing_key_witness:
  "strip (environ_get (serpapi_api_key env0)) = [] \<and>
   serp_search env0 ''jane doe'' 5 [] =
       (Inl (RetryError (Exn ''RuntimeError'' ''Missing SERPAPI_API_KEY'')), [Sleep 1, Sleep 2])"
proof -
  have h: "strip (environ_get (serpapi_api_key env0)) = []"
    by (simp add: env0_def environ_get_def strip_def strip_by_def lstrip_by_def rstrip_by_def)
  from serp_search_missing_key[OF h, of "''jane doe''" 5 "[]"] h show ?thesis by simp
qed

text \<open>
  C2, as stated: a single immediate failure, outside the retry policy and distinct
  from a runtime call failure. With the key unset the search does not raise the
  configuration error itself: the attempt is retried with both pauses, and the
  exception received is a \<open>RetryError\<close>, as it is when the request fails at run time.
\<close>

theorem serp_search_missing_key_retried_counterexample:
  "serpapi_api_key env0 = None \<and>
   fst (serp_search env0 ''jane doe'' 5 []) \<noteq> Inl (Exn ''RuntimeError'' ''Missing SERPAPI_API_KEY'') \<and>
   snd (serp_search env0 ''jane doe'' 5 []) = [Sleep 1, Sleep 2] \<and>
   fst (serp_search env_search_down ''jane doe'' 5 [])
     = Inl (RetryError (Exn ''HTTPError'' ''500 Server Error'')) \<and>
   fst (serp_search env0 ''jane doe'' 5 []) = Inl (RetryError (Exn ''RuntimeError'' ''Missing SERPAPI_API_KEY''))"
  by (simp add: serp_search_def retry_1 retry_2 retry_3 serp_search_body_def serp_key_required_def
        env_search_down_def env0_def environ_get_def strip_def strip_by_def lstrip_by_def rstrip_by_def py_isspace_def)

section \<open>The multiplier clamp\<close>












section \<open>Corpus assembly\<close>


























section \<open>The orchestrator never raises\<close>


lemma root_msg_retry: "root_msg (RetryError c) \<noteq> []"
  by simp














end
